theory Spec2Isabelle
  imports Complex_Main "HOL-Library.Word"
begin

section \<open>The OPD queue display sketch (esp32\_lcd\_display.ino)\<close>

text \<open>
  The sketch talks to four devices: the serial port, the 16x2 character LCD, the WiFi
  station and an HTTP client, and it decodes one JSON document per poll. Every call
  that acts on a device is recorded, in program order, as an \<open>event\<close>; every value a
  device hands back (link status, HTTP status code, response body, decoded fields,
  clock) is an input of the model.
\<close>

subsection \<open>Configuration constants\<close>

definition WIFI_SSID :: string where
  "WIFI_SSID = ''YOUR_WIFI_SSID''"

definition WIFI_PASSWORD :: string where
  "WIFI_PASSWORD = ''YOUR_WIFI_PASSWORD''"

definition SERVER_IP :: string where
  "SERVER_IP = ''http://192.168.X.X:5000''"

definition DOCTOR_ID :: int where
  "DOCTOR_ID = 1"

definition POLL_INTERVAL :: int where
  "POLL_INTERVAL = 5000"

subsection \<open>Devices\<close>

text \<open>The values of \<open>WiFi.status()\<close> (the \<open>wl_status_t\<close> enumeration of the WiFi library).\<close>

datatype wl_status_t =
    WL_NO_SHIELD
  | WL_IDLE_STATUS
  | WL_NO_SSID_AVAIL
  | WL_SCAN_COMPLETED
  | WL_CONNECTED
  | WL_CONNECT_FAILED
  | WL_CONNECTION_LOST
  | WL_DISCONNECTED

text \<open>The result of \<open>deserializeJson\<close>; \<open>Ok\<close> is the only value that converts to false.\<close>

datatype DeserializationError =
    Ok
  | EmptyInput
  | IncompleteInput
  | InvalidInput
  | NoMemory
  | TooDeep

fun c_str :: "DeserializationError \<Rightarrow> string" where
  "c_str Ok = ''Ok''"
| "c_str EmptyInput = ''EmptyInput''"
| "c_str IncompleteInput = ''IncompleteInput''"
| "c_str InvalidInput = ''InvalidInput''"
| "c_str NoMemory = ''NoMemory''"
| "c_str TooDeep = ''TooDeep''"

datatype event =
    SerialBegin nat
  | SerialPrint string
  | SerialPrintln string
  | LcdInit
  | LcdBacklight
  | LcdClear
  | LcdSetCursor nat nat
  | LcdPrint string
  | WiFiBegin string string
  | Delay nat
  | HttpBegin string
  | HttpSetTimeout nat
  | HttpGET
  | HttpGetString
  | HttpEnd
  | DeserializeJson string

text \<open>
  What the sketch reads from the \<open>data\<close> object of the decoded document. A field is
  \<open>None\<close> where the JSON library reports no usable value and the sketch falls back on
  its default: \<open>current_token\<close> is \<open>None\<close> when \<open>data["current_token"].isNull()\<close>, and
  otherwise holds the value of the cast \<open>(int)data["current_token"]\<close>; the other three
  are \<open>None\<close> when the \<open>|\<close> operator yields its right operand. The wait is the value
  held by the \<open>float\<close> variable, a finite number.
\<close>

record json_data =
  current_token :: "int option"
  estimated_wait_min :: "real option"
  waiting_count :: "int option"
  status :: "string option"

text \<open>The decoded document: the truth of \<open>doc["success"] == true\<close>, and \<open>doc["data"]\<close>.\<close>

record json_doc =
  success :: bool
  data :: json_data

text \<open>What the devices answer during one call of \<open>fetchAndDisplay\<close>.\<close>

record poll_env =
  wifi_status :: wl_status_t
  http_GET :: int
  http_getString :: string
  json_error :: DeserializationError
  json_document :: json_doc

subsection \<open>Strings\<close>

text \<open>\<open>String(int)\<close>: the decimal numeral, with a minus sign for a negative value.\<close>

definition digit_char :: "nat \<Rightarrow> char" where
  "digit_char d = ''0123456789'' ! d"

fun digits :: "nat \<Rightarrow> string" where
  "digits n = (if n < 10 then [digit_char n] else digits (n div 10) @ [digit_char (n mod 10)])"

declare digits.simps [simp del]

definition String_int :: "int \<Rightarrow> string" where
  "String_int i = (if i < 0 then CHR ''-'' # digits (nat (- i)) else digits (nat i))"

text \<open>The values of the 32-bit \<open>int\<close>.\<close>

definition int_fits :: "int \<Rightarrow> bool" where
  "int_fits i = (- (2 ^ 31) \<le> i \<and> i < 2 ^ 31)"

text \<open>
  The cast \<open>(int)estimatedWait\<close> of a \<open>float\<close>: the fractional part is discarded. C++
  defines the result only when it fits the \<open>int\<close>; otherwise the model leaves the
  value unspecified.
\<close>

definition float_to_int :: "real \<Rightarrow> int" where
  "float_to_int x =
     (let n = (if 0 \<le> x then \<lfloor>x\<rfloor> else \<lceil>x\<rceil>) in
      if int_fits n then n else undefined)"

text \<open>The cast \<open>(unsigned int)length\<close> of an \<open>int\<close>.\<close>

definition unsigned_int :: "int \<Rightarrow> nat" where
  "unsigned_int i = nat (i mod 2 ^ 32)"

text \<open>\<open>String::substring(left, right)\<close>.\<close>

definition substring :: "string \<Rightarrow> nat \<Rightarrow> nat \<Rightarrow> string" where
  "substring s left right =
     (let (l, r) = (if left > right then (right, left) else (left, right)) in
      if l \<ge> length s then []
      else take (min r (length s) - l) (drop l s))"

text \<open>The loop of \<open>padRight\<close>: \<open>while (s.length() < n) s += " "\<close>.\<close>

function pad_loop :: "string \<Rightarrow> nat \<Rightarrow> string" where
  "pad_loop s n = (if length s < n then pad_loop (s @ '' '') n else s)"
  by pat_completeness auto
termination
  by (relation "measure (\<lambda>(s, n). n - length s)") auto

declare pad_loop.simps [simp del]

definition padRight :: "string \<Rightarrow> int \<Rightarrow> string" where
  "padRight s len =
     (let s1 = pad_loop s (unsigned_int len) in
      if length s1 > unsigned_int len then substring s1 0 (unsigned_int len) else s1)"

subsection \<open>fetchAndDisplay\<close>

text \<open>The four locals read from the document, with their defaults.\<close>

definition currentToken :: "json_data \<Rightarrow> int" where
  "currentToken d = (case current_token d of None \<Rightarrow> - 1 | Some t \<Rightarrow> t)"

definition estimatedWait :: "json_data \<Rightarrow> real" where
  "estimatedWait d = (case estimated_wait_min d of None \<Rightarrow> 0 | Some w \<Rightarrow> w)"

definition waitingCount :: "json_data \<Rightarrow> int" where
  "waitingCount d = (case waiting_count d of None \<Rightarrow> 0 | Some c \<Rightarrow> c)"

definition status_tag :: "json_data \<Rightarrow> string" where
  "status_tag d = (case status d of None \<Rightarrow> ''idle'' | Some s \<Rightarrow> s)"

text \<open>The first line, as built before padding.\<close>

definition build_line1 :: "string \<Rightarrow> int \<Rightarrow> string" where
  "build_line1 st tok =
     (if st = ''consulting'' \<and> tok > 0 then
        ''NOW: #'' @
          (if tok < 10 then ''00'' @ String_int tok
           else if tok < 100 then ''0'' @ String_int tok
           else String_int tok)
      else ''QUEUE IDLE'')"

text \<open>The second line, as built before padding.\<close>

definition build_line2 :: "real \<Rightarrow> string" where
  "build_line2 w = ''Wait: ~'' @ String_int (float_to_int w) @ '' min''"

definition request_url :: string where
  "request_url = SERVER_IP @ ''/api/display/current?doctor_id='' @ String_int DOCTOR_ID"

definition fetchAndDisplay :: "poll_env \<Rightarrow> event list" where
  "fetchAndDisplay env =
     (if wifi_status env \<noteq> WL_CONNECTED then
        [LcdClear, LcdSetCursor 0 0, LcdPrint ''WiFi Lost...'']
      else
        [HttpBegin request_url, HttpSetTimeout 4000, HttpGET] @
        (let statusCode = http_GET env in
         if statusCode = 200 then
           (let payload = http_getString env;
                error = json_error env;
                doc = json_document env
            in [HttpGetString, SerialPrintln (''Response: '' @ payload), DeserializeJson payload] @
               (if error = Ok \<and> success doc then
                  (let d = data doc;
                       tok = currentToken d;
                       wait = estimatedWait d;
                       cnt = waitingCount d;
                       st = status_tag d;
                       line1 = build_line1 st tok;
                       line2 = build_line2 wait
                   in [LcdClear,
                       LcdSetCursor 0 0, LcdPrint (padRight line1 16),
                       LcdSetCursor 0 1, LcdPrint (padRight line2 16),
                       SerialPrintln (''LCD: ['' @ line1 @ ''] ['' @ line2 @ '']'')])
                else
                  [LcdClear, LcdSetCursor 0 0, LcdPrint ''Parse Error'',
                   SerialPrintln (''JSON Error: '' @ c_str error)]))
         else
           [LcdClear, LcdSetCursor 0 0, LcdPrint ''Server Error'',
            LcdSetCursor 0 1, LcdPrint (''Code: '' @ String_int statusCode),
            SerialPrintln (''HTTP Error: '' @ String_int statusCode)]) @
        [HttpEnd])"

text \<open>The strings handed to \<open>lcd.print\<close>, in order.\<close>

fun lcd_printed :: "event list \<Rightarrow> string list" where
  "lcd_printed [] = []"
| "lcd_printed (LcdPrint s # es) = s # lcd_printed es"
| "lcd_printed (e # es) = lcd_printed es"

text \<open>The calls that reach the network: the HTTP client.\<close>

fun is_http :: "event \<Rightarrow> bool" where
  "is_http (HttpBegin u) = True"
| "is_http (HttpSetTimeout t) = True"
| "is_http HttpGET = True"
| "is_http HttpGetString = True"
| "is_http HttpEnd = True"
| "is_http e = False"

text \<open>The calls that act on the LCD.\<close>

fun is_lcd :: "event \<Rightarrow> bool" where
  "is_lcd LcdInit = True"
| "is_lcd LcdBacklight = True"
| "is_lcd LcdClear = True"
| "is_lcd (LcdSetCursor c r) = True"
| "is_lcd (LcdPrint s) = True"
| "is_lcd e = False"

subsection \<open>loop\<close>

text \<open>
  \<open>now\<close> and \<open>lastPollTime\<close> are \<open>unsigned long\<close>, 32 bits wide on the ESP32; the
  comparison converts the \<open>int\<close> constant \<open>POLL_INTERVAL\<close> to that type.
\<close>

definition poll_due :: "32 word \<Rightarrow> 32 word \<Rightarrow> bool" where
  "poll_due now lastPollTime = (now - lastPollTime \<ge> word_of_int POLL_INTERVAL)"

text \<open>One call of \<open>loop\<close>: the new \<open>lastPollTime\<close> and the events of the call.\<close>

definition loop :: "32 word \<Rightarrow> 32 word \<Rightarrow> poll_env \<Rightarrow> 32 word \<times> event list" where
  "loop lastPollTime now env =
     (if poll_due now lastPollTime then (now, fetchAndDisplay env) else (lastPollTime, []))"

subsection \<open>The setup function\<close>

text \<open>
  What the WiFi station answers during \<open>setup()\<close>: \<open>wifi_poll k\<close> is the result of the
  \<open>k\<close>-th call of \<open>WiFi.status()\<close>, counted from 0, and \<open>localIP\<close> the printed address.
\<close>

record boot_env =
  wifi_poll :: "nat \<Rightarrow> wl_status_t"
  localIP :: string

text \<open>
  The connection loop, started after \<open>k\<close> calls of \<open>WiFi.status()\<close> with the counter at
  \<open>attempts\<close>. It returns the events, the number of status calls made so far and the
  final counter.
\<close>

function wait_connect :: "(nat \<Rightarrow> wl_status_t) \<Rightarrow> nat \<Rightarrow> int \<Rightarrow> event list \<times> nat \<times> int" where
  "wait_connect st k attempts =
     (if st k \<noteq> WL_CONNECTED \<and> attempts < 30 then
        (case wait_connect st (Suc k) (attempts + 1) of
           (es, k', a') \<Rightarrow> ([Delay 500, SerialPrint ''.''] @ es, k', a'))
      else ([], Suc k, attempts))"
  by pat_completeness auto
termination
  by (relation "measure (\<lambda>(st, k, attempts). nat (30 - attempts))") auto

declare wait_connect.simps [simp del]

text \<open>
  \<open>while (true) { delay(1000); }\<close> run for \<open>fuel\<close> iterations. The flag tells whether
  the loop has been left; its condition is the constant \<open>true\<close>, so it never is.
\<close>

fun halt :: "nat \<Rightarrow> event list \<times> bool" where
  "halt 0 = ([], False)"
| "halt (Suc fuel) = (case halt fuel of (es, left) \<Rightarrow> (Delay 1000 # es, left))"

text \<open>
  The function \<open>setup()\<close> of the sketch, with \<open>fuel\<close> bounding the iterations of
  the halt loop: the events, and whether the function has returned.
\<close>

definition setup_sketch :: "boot_env \<Rightarrow> nat \<Rightarrow> event list \<times> bool" where
  "setup_sketch env fuel =
     (let start =
            [SerialBegin 115200, LcdInit, LcdBacklight, LcdClear,
             LcdSetCursor 0 0, LcdPrint ''OPD Queue System'',
             LcdSetCursor 0 1, LcdPrint ''Connecting WiFi.'',
             WiFiBegin WIFI_SSID WIFI_PASSWORD, SerialPrint ''Connecting to WiFi'']
      in case wait_connect (wifi_poll env) 0 0 of
           (es, k, attempts) \<Rightarrow>
             if wifi_poll env k = WL_CONNECTED then
               (start @ es @
                [SerialPrintln (CHR 0x0A # ''Connected! IP: '' @ localIP env),
                 LcdClear, LcdSetCursor 0 0, LcdPrint ''WiFi Connected!'',
                 LcdSetCursor 0 1, LcdPrint (localIP env), Delay 2000], True)
             else
               (case halt fuel of
                  (hs, left) \<Rightarrow>
                    (start @ es @
                     [SerialPrintln (CHR 0x0A # ''WiFi FAILED''),
                      LcdClear, LcdSetCursor 0 0, LcdPrint ''WiFi Failed!'',
                      LcdSetCursor 0 1, LcdPrint ''Check config...''] @ hs, left)))"

subsection \<open>The Arduino runtime\<close>

text \<open>
  The runtime calls \<open>setup()\<close> once and then \<open>loop()\<close> again and again. \<open>ticks i\<close> is what
  the \<open>i\<close>-th call of \<open>loop\<close> sees: the value of \<open>millis()\<close> and the answers of the
  devices. \<open>lastPollTime\<close> starts at 0.
\<close>

fun run_loop :: "(nat \<Rightarrow> 32 word \<times> poll_env) \<Rightarrow> nat \<Rightarrow> 32 word \<Rightarrow> nat \<Rightarrow> event list" where
  "run_loop ticks i lastPollTime 0 = []"
| "run_loop ticks i lastPollTime (Suc fuel) =
     (case ticks i of
        (now, env) \<Rightarrow>
          (case loop lastPollTime now env of
             (lastPollTime', es) \<Rightarrow> es @ run_loop ticks (Suc i) lastPollTime' fuel))"

definition arduino_main :: "boot_env \<Rightarrow> (nat \<Rightarrow> 32 word \<times> poll_env) \<Rightarrow> nat \<Rightarrow> event list" where
  "arduino_main benv ticks fuel =
     (case setup_sketch benv fuel of
        (es, returned) \<Rightarrow> if returned then es @ run_loop ticks 0 0 fuel else es)"

subsection \<open>Notions of the specification\<close>

text \<open>A line left-justified in \<open>n\<close> columns: padded with spaces or cut.\<close>

definition fixed_width :: "nat \<Rightarrow> string \<Rightarrow> string" where
  "fixed_width n s = take n (s @ replicate (n - length s) CHR '' '')"

text \<open>The number a string of decimal digits denotes.\<close>

definition digit_value :: "char \<Rightarrow> nat" where
  "digit_value c = of_char c - 48"

definition decimal_value :: "string \<Rightarrow> nat" where
  "decimal_value s = foldl (\<lambda>acc c. 10 * acc + digit_value c) 0 s"

text \<open>Truncation toward zero.\<close>

definition truncate_toward_zero :: "real \<Rightarrow> int" where
  "truncate_toward_zero x = (if x < 0 then - \<lfloor>- x\<rfloor> else \<lfloor>x\<rfloor>)"

subsection \<open>Sample inputs\<close>

definition no_data :: json_data where
  "no_data = \<lparr>current_token = None, estimated_wait_min = None,
              waiting_count = None, status = None\<rparr>"

definition env_wifi_lost :: poll_env where
  "env_wifi_lost =
     \<lparr>wifi_status = WL_CONNECTION_LOST, http_GET = 200, http_getString = ''{}'',
      json_error = Ok, json_document = \<lparr>success = True, data = no_data\<rparr>\<rparr>"

definition env_malformed :: poll_env where
  "env_malformed =
     \<lparr>wifi_status = WL_CONNECTED, http_GET = 200, http_getString = ''<html>'',
      json_error = InvalidInput, json_document = \<lparr>success = False, data = no_data\<rparr>\<rparr>"

definition env_refused :: poll_env where
  "env_refused =
     \<lparr>wifi_status = WL_CONNECTED, http_GET = 200, http_getString = ''{success:false}'',
      json_error = Ok, json_document = \<lparr>success = False, data = no_data\<rparr>\<rparr>"

definition env_500 :: poll_env where
  "env_500 =
     \<lparr>wifi_status = WL_CONNECTED, http_GET = 500, http_getString = ''Internal Server Error'',
      json_error = InvalidInput, json_document = \<lparr>success = False, data = no_data\<rparr>\<rparr>"

definition data_token7 :: json_data where
  "data_token7 = \<lparr>current_token = Some 7, estimated_wait_min = Some (243 / 10),
                  waiting_count = Some 3, status = Some ''consulting''\<rparr>"


definition env_ok :: "json_data \<Rightarrow> poll_env" where
  "env_ok d =
     \<lparr>wifi_status = WL_CONNECTED, http_GET = 200, http_getString = ''{success:true,data:{}}'',
      json_error = Ok, json_document = \<lparr>success = True, data = d\<rparr>\<rparr>"

text \<open>A 204 answer with an empty body, and a 201 answer whose body is not JSON.\<close>

definition env_204 :: poll_env where
  "env_204 =
     \<lparr>wifi_status = WL_CONNECTED, http_GET = 204, http_getString = [],
      json_error = EmptyInput, json_document = \<lparr>success = False, data = no_data\<rparr>\<rparr>"

definition env_201 :: poll_env where
  "env_201 =
     \<lparr>wifi_status = WL_CONNECTED, http_GET = 201, http_getString = ''created'',
      json_error = InvalidInput, json_document = \<lparr>success = False, data = no_data\<rparr>\<rparr>"

text \<open>A station that never gets a link.\<close>

definition boot_no_link :: boot_env where
  "boot_no_link = \<lparr>wifi_poll = (\<lambda>k. WL_DISCONNECTED), localIP = ''0.0.0.0''\<rparr>"

text \<open>A station that has its link at once.\<close>

definition boot_link :: boot_env where
  "boot_link = \<lparr>wifi_poll = (\<lambda>k. WL_CONNECTED), localIP = ''192.168.1.23''\<rparr>"

text \<open>A clock that advances by 5000 ms from one call of \<open>loop()\<close> to the next.\<close>

definition sample_ticks :: "nat \<Rightarrow> 32 word \<times> poll_env" where
  "sample_ticks i = (word_of_nat (5000 * Suc i), env_ok data_token7)"

section \<open>Properties\<close>

subsection \<open>Decimal numerals\<close>

lemma digits_small: "n < 10 \<Longrightarrow> digits n = [digit_char n]"
  by (simp add: digits.simps [of n])

lemma digits_large: "10 \<le> n \<Longrightarrow> digits n = digits (n div 10) @ [digit_char (n mod 10)]"
  by (simp add: digits.simps [of n])

lemma length_digits_1: "n < 10 \<Longrightarrow> length (digits n) = 1"
  by (simp add: digits_small)

lemma length_digits_2: "10 \<le> n \<Longrightarrow> n < 100 \<Longrightarrow> length (digits n) = 2"
proof -
  assume lo: "10 \<le> n" and hi: "n < 100"
  then have "n div 10 < 10" by simp
  then have "length (digits (n div 10)) = 1" by (rule length_digits_1)
  moreover from lo have "digits n = digits (n div 10) @ [digit_char (n mod 10)]"
    by (rule digits_large)
  ultimately show ?thesis by simp
qed

lemma length_digits_3: "100 \<le> n \<Longrightarrow> n < 1000 \<Longrightarrow> length (digits n) = 3"
proof -
  assume lo: "100 \<le> n" and hi: "n < 1000"
  then have "10 \<le> n div 10" and "n div 10 < 100" by simp_all
  then have "length (digits (n div 10)) = 2" by (rule length_digits_2)
  moreover from lo have "digits n = digits (n div 10) @ [digit_char (n mod 10)]"
    by (intro digits_large) simp
  ultimately show ?thesis by simp
qed

lemma length_digits_pos: "0 < length (digits n)"
  by (cases "n < 10") (simp_all add: digits_small digits_large)

lemma length_digits_mono: "m \<le> n \<Longrightarrow> length (digits m) \<le> length (digits n)"
proof (induction n arbitrary: m rule: digits.induct)
  case (1 n)
  show ?case
  proof (cases "n < 10")
    case True
    with 1 show ?thesis by (simp add: digits_small)
  next
    case False
    note big = this
    show ?thesis
    proof (cases "m < 10")
      case True
      with big show ?thesis by (simp add: digits_small digits_large)
    next
      case False
      from 1(2) have "m div 10 \<le> n div 10" by (rule div_le_mono)
      with 1(1) [OF big] have "length (digits (m div 10)) \<le> length (digits (n div 10))" by blast
      with False big show ?thesis by (simp add: digits_large)
    qed
  qed
qed

lemma length_digits_1000: "1000 \<le> n \<Longrightarrow> 4 \<le> length (digits n)"
proof -
  assume "1000 \<le> n"
  then have "length (digits 1000) \<le> length (digits n)" by (rule length_digits_mono)
  moreover have "length (digits 1000) = 4" by (simp add: digits.simps)
  ultimately show ?thesis by simp
qed

lemma digit_cases: "d < 10 \<Longrightarrow> d = 0 \<or> d = 1 \<or> d = 2 \<or> d = 3 \<or> d = 4 \<or> d = 5 \<or> d = 6 \<or> d = 7 \<or> d = 8 \<or> d = (9::nat)"
  by arith

lemma digit_value_digit_char: "d < 10 \<Longrightarrow> digit_value (digit_char d) = d"
  using digit_cases [of d] by (auto simp: digit_value_def digit_char_def)

lemma digit_char_zero_iff: "d < 10 \<Longrightarrow> digit_char d = CHR ''0'' \<longleftrightarrow> d = 0"
  using digit_cases [of d] by (auto simp: digit_char_def)

lemma decimal_value_snoc: "decimal_value (s @ [c]) = 10 * decimal_value s + digit_value c"
  by (simp add: decimal_value_def)

lemma decimal_value_digits: "decimal_value (digits n) = n"
proof (induction n rule: digits.induct)
  case (1 n)
  show ?case
  proof (cases "n < 10")
    case True
    then show ?thesis by (simp add: digits_small decimal_value_def digit_value_digit_char)
  next
    case False
    with 1 show ?thesis
      by (simp add: digits_large decimal_value_snoc digit_value_digit_char)
  qed
qed

lemma hd_digits: "0 < n \<Longrightarrow> hd (digits n) \<noteq> CHR ''0''"
proof (induction n rule: digits.induct)
  case (1 n)
  show ?case
  proof (cases "n < 10")
    case True
    with 1(2) show ?thesis by (simp add: digits_small digit_char_zero_iff)
  next
    case False
    then have "0 < n div 10" by simp
    with 1(1) False have "hd (digits (n div 10)) \<noteq> CHR ''0''" by simp
    moreover have "digits (n div 10) \<noteq> []" using length_digits_pos [of "n div 10"] by simp
    ultimately show ?thesis using False by (simp add: digits_large)
  qed
qed

lemma String_int_nonneg: "0 \<le> i \<Longrightarrow> String_int i = digits (nat i)"
  by (simp add: String_int_def)

subsection \<open>Padding\<close>

lemma pad_loop_eq: "pad_loop s n = s @ replicate (n - length s) CHR '' ''"
proof (induction s n rule: pad_loop.induct)
  case (1 s n)
  show ?case
  proof (cases "length s < n")
    case True
    then have "n - length s = Suc (n - length (s @ '' ''))" by simp
    with True 1 show ?thesis
      by (simp add: pad_loop.simps [of s n] replicate_app_Cons_same)
  next
    case False
    then show ?thesis by (simp add: pad_loop.simps [of s n])
  qed
qed

lemma padRight_fixed_width: "padRight s len = fixed_width (unsigned_int len) s"
  by (auto simp: padRight_def Let_def pad_loop_eq substring_def fixed_width_def)

lemma length_fixed_width: "length (fixed_width n s) = n"
  by (simp add: fixed_width_def)

lemma unsigned_int_16: "unsigned_int 16 = 16"
  by (simp add: unsigned_int_def)

lemma padRight_16: "padRight s 16 = fixed_width 16 s"
  by (simp add: padRight_fixed_width unsigned_int_16)

lemma lcd_printed_fetch:
  "lcd_printed (fetchAndDisplay env) =
     (if wifi_status env \<noteq> WL_CONNECTED then [''WiFi Lost...'']
      else if http_GET env \<noteq> 200 then [''Server Error'', ''Code: '' @ String_int (http_GET env)]
      else if json_error env = Ok \<and> success (json_document env) then
        [padRight (build_line1 (status_tag (data (json_document env)))
                               (currentToken (data (json_document env)))) 16,
         padRight (build_line2 (estimatedWait (data (json_document env)))) 16]
      else [''Parse Error''])"
  by (simp add: fetchAndDisplay_def Let_def)

subsection \<open>Evaluation of sample inputs\<close>

lemma replicate_numeral: "replicate (numeral k) x = x # replicate (pred_numeral k) x"
  by (simp add: numeral_eq_Suc)

lemmas numeral_eval = String_int_def digits.simps digit_char_def

lemma connected_issues_get:
  "wifi_status env = WL_CONNECTED \<Longrightarrow> HttpGET \<in> set (fetchAndDisplay env)"
  by (simp add: fetchAndDisplay_def)

subsection \<open>The lines of a successful decode\<close>

lemma float_to_int_truncates:
  "int_fits (truncate_toward_zero x) \<Longrightarrow> float_to_int x = truncate_toward_zero x"
  by (auto simp: float_to_int_def truncate_toward_zero_def ceiling_def Let_def)



lemma length_String_int_1: "0 \<le> t \<Longrightarrow> t \<le> 9 \<Longrightarrow> length (String_int t) = 1"
proof -
  assume "0 \<le> t" and "t \<le> 9"
  then have "nat t < 10" by linarith
  then have "length (digits (nat t)) = 1" by (rule length_digits_1)
  with \<open>0 \<le> t\<close> show ?thesis by (simp add: String_int_nonneg)
qed

lemma length_String_int_2: "10 \<le> t \<Longrightarrow> t \<le> 99 \<Longrightarrow> length (String_int t) = 2"
proof -
  assume "10 \<le> t" and "t \<le> 99"
  then have "10 \<le> nat t" and "nat t < 100" by linarith+
  then have "length (digits (nat t)) = 2" by (rule length_digits_2)
  with \<open>10 \<le> t\<close> show ?thesis by (simp add: String_int_nonneg)
qed

lemma length_String_int_3: "100 \<le> t \<Longrightarrow> t \<le> 999 \<Longrightarrow> length (String_int t) = 3"
proof -
  assume "100 \<le> t" and "t \<le> 999"
  then have "100 \<le> nat t" and "nat t < 1000" by linarith+
  then have "length (digits (nat t)) = 3" by (rule length_digits_3)
  with \<open>100 \<le> t\<close> show ?thesis by (simp add: String_int_nonneg)
qed

lemma length_String_int_4: "1000 \<le> t \<Longrightarrow> 4 \<le> length (String_int t)"
proof -
  assume "1000 \<le> t"
  then have "1000 \<le> nat t" by linarith
  then have "4 \<le> length (digits (nat t))" by (rule length_digits_1000)
  with \<open>1000 \<le> t\<close> show ?thesis by (simp add: String_int_nonneg)
qed

lemma String_int_positive:
  "1 \<le> t \<Longrightarrow> hd (String_int t) \<noteq> CHR ''0'' \<and> decimal_value (String_int t) = nat t"
  by (simp add: String_int_nonneg hd_digits decimal_value_digits)

lemma fixed_width_pads:
  "length s \<le> n \<Longrightarrow> fixed_width n s = s @ replicate (n - length s) CHR '' ''"
  by (simp add: fixed_width_def)

text \<open>
  A token that fits the \<open>int\<close> and a wait below 100000 minutes leave the built lines
  within the 16 columns: they are padded, not cut. A longer wait line is cut.
\<close>

lemma wait_line_fits_display:
  assumes "0 \<le> truncate_toward_zero w" and "truncate_toward_zero w < 100000"
  shows "fixed_width 16 (build_line2 w) =
           build_line2 w @ replicate (16 - length (build_line2 w)) CHR '' ''"
proof -
  from assms have fits: "int_fits (truncate_toward_zero w)"
    by (simp add: int_fits_def)
  from assms have "nat (truncate_toward_zero w) \<le> 99999" by linarith
  then have "length (digits (nat (truncate_toward_zero w))) \<le> length (digits 99999)"
    by (rule length_digits_mono)
  moreover have "length (digits 99999) = 5"
    by (simp add: digits.simps)
  ultimately have "length (build_line2 w) \<le> 16"
    using assms(1) fits by (simp add: build_line2_def float_to_int_truncates String_int_nonneg)
  then show ?thesis by (rule fixed_width_pads)
qed

lemma wait_line_cut_example:
  "fixed_width 16 (build_line2 123456) = ''Wait: ~123456 mi''"
  by (simp add: fixed_width_def build_line2_def float_to_int_def int_fits_def numeral_eval)

lemma token_line_fits_display:
  assumes "0 < t" and "int_fits t"
  shows "fixed_width 16 (build_line1 ''consulting'' t) =
           build_line1 ''consulting'' t
           @ replicate (16 - length (build_line1 ''consulting'' t)) CHR '' ''"
proof -
  from assms have "nat t \<le> 2147483647" by (simp add: int_fits_def)
  then have "length (digits (nat t)) \<le> length (digits 2147483647)"
    by (rule length_digits_mono)
  moreover have "length (digits 2147483647) = 10"
    by (simp add: digits.simps)
  ultimately have "length (String_int t) \<le> 10"
    using assms(1) by (simp add: String_int_nonneg)
  moreover have "t < 10 \<Longrightarrow> length (String_int t) = 1"
    using assms(1) by (intro length_String_int_1) linarith+
  moreover have "\<not> t < 10 \<Longrightarrow> t < 100 \<Longrightarrow> length (String_int t) = 2"
    by (intro length_String_int_2) linarith+
  ultimately have "length (build_line1 ''consulting'' t) \<le> 16"
    using assms(1) by (simp add: build_line1_def)
  then show ?thesis by (rule fixed_width_pads)
qed

subsection \<open>Elapsed time\<close>

text \<open>
  When \<open>d\<close> milliseconds have passed since the last poll, with \<open>d\<close> below the period
  of the counter, the test compares \<open>d\<close> itself with the interval, wherever the counter
  stands.
\<close>

lemma poll_due_elapsed:
  assumes "d < 2 ^ 32"
  shows "poll_due (lastPollTime + word_of_nat d) lastPollTime = (5000 \<le> d)"
proof -
  have "unat (word_of_nat d :: 32 word) = d"
    using assms by (simp add: unat_of_nat)
  then have "(word_of_nat 5000 \<le> (word_of_nat d :: 32 word)) = (5000 \<le> d)"
    by (simp add: word_le_nat_alt)
  then show ?thesis
    by (simp add: poll_due_def POLL_INTERVAL_def)
qed

subsection \<open>The startup sequence\<close>

lemma halt_never_left: "halt fuel = (replicate fuel (Delay 1000), False)"
  by (induction fuel) simp_all

lemma wait_connect_no_link:
  assumes "\<forall>j. k \<le> j \<and> j \<le> k + nat (30 - a) \<longrightarrow> st j \<noteq> WL_CONNECTED" and "a \<le> 30"
  shows "wait_connect st k a =
           (concat (replicate (nat (30 - a)) [Delay 500, SerialPrint ''.'']),
            Suc (k + nat (30 - a)), 30)"
  using assms
proof (induction st k a rule: wait_connect.induct)
  case (1 st k attempts)
  from 1(2) have here: "st k \<noteq> WL_CONNECTED" by simp
  show ?case
  proof (cases "attempts < 30")
    case True
    then have n: "nat (30 - attempts) = Suc (nat (30 - (attempts + 1)))" by linarith
    have "\<forall>j. Suc k \<le> j \<and> j \<le> Suc k + nat (30 - (attempts + 1)) \<longrightarrow> st j \<noteq> WL_CONNECTED"
      using 1(2) n by simp
    moreover have "attempts + 1 \<le> 30" using True by simp
    ultimately have "wait_connect st (Suc k) (attempts + 1) =
        (concat (replicate (nat (30 - (attempts + 1))) [Delay 500, SerialPrint ''.'']),
         Suc (Suc k + nat (30 - (attempts + 1))), 30)"
      using 1(1) here True by blast
    then show ?thesis
      using here True n by (simp add: wait_connect.simps [of st k attempts])
  next
    case False
    then have "wait_connect st k attempts = ([], Suc k, attempts)"
      by (simp add: wait_connect.simps [of st k attempts])
    moreover from False 1(3) have "attempts = 30" by simp
    ultimately show ?thesis by simp
  qed
qed

lemma wait_connect_30:
  assumes "\<forall>k<31. st k \<noteq> WL_CONNECTED"
  shows "wait_connect st 0 0 = (concat (replicate 30 [Delay 500, SerialPrint ''.'']), 31, 30)"
proof -
  have "\<forall>j. 0 \<le> j \<and> j \<le> 0 + nat (30 - 0) \<longrightarrow> st j \<noteq> WL_CONNECTED"
    using assms by simp
  then have "wait_connect st 0 0 =
           (concat (replicate (nat (30 - 0)) [Delay 500, SerialPrint ''.'']),
            Suc (0 + nat (30 - 0)), 30)"
    by (intro wait_connect_no_link) simp_all
  then show ?thesis by simp
qed

lemma filter_http_dots: "filter is_http (concat (replicate n [Delay 500, SerialPrint ''.''])) = []"
  by (induction n) simp_all

lemma filter_http_halt: "filter is_http (replicate n (Delay 1000)) = []"
  by (induction n) simp_all

lemma late_link_is_accepted:
  assumes "\<forall>k<31. wifi_poll benv k \<noteq> WL_CONNECTED" and "wifi_poll benv 31 = WL_CONNECTED"
  shows "snd (setup_sketch benv fuel)"
  using assms(2) by (simp add: setup_sketch_def wait_connect_30 [OF assms(1)])

lemma main_polls_with_link:
  "HttpGET \<in> set (arduino_main boot_link sample_ticks (Suc 0))"
proof -
  have "wait_connect (\<lambda>k. WL_CONNECTED) 0 0 = ([], 1, 0)"
    by (simp add: wait_connect.simps)
  then obtain es where s: "setup_sketch boot_link (Suc 0) = (es, True)"
    by (simp add: setup_sketch_def boot_link_def)
  have "poll_due 5000 0"
    by (simp add: poll_due_def POLL_INTERVAL_def)
  then have "loop 0 5000 (env_ok data_token7) = (5000, fetchAndDisplay (env_ok data_token7))"
    by (simp add: loop_def)
  moreover have "HttpGET \<in> set (fetchAndDisplay (env_ok data_token7))"
    by (rule connected_issues_get) (simp add: env_ok_def)
  ultimately show ?thesis
    by (simp add: arduino_main_def s sample_ticks_def)
qed

section \<open>The claims\<close>

subsection \<open>Width of the display lines\<close>

text \<open>
  Claim C1 says that every line handed to the LCD is exactly 16 characters long, in the
  serving and idle branches and in every error branch. The sketch pads only in the
  branch of a successful decode. A malformed body gives the line \<open>Parse Error\<close>, which
  reaches \<open>lcd.print\<close> with its 11 characters.
\<close>

theorem parse_error_line_not_padded:
  "lcd_printed (fetchAndDisplay env_malformed) = [''Parse Error'']
   \<and> length ''Parse Error'' \<noteq> 16"
  by (simp add: lcd_printed_fetch env_malformed_def)

text \<open>
  Claim C1, amended: in the serving and idle branches both lines handed to the LCD are
  the built lines left-justified in exactly 16 columns (padded with spaces or cut); in
  the error branches the messages are handed over as they are: \<open>WiFi Lost...\<close> (12
  characters), \<open>Server Error\<close> (12) followed by \<open>Code: \<close> and the status code, and
  \<open>Parse Error\<close> (11).
\<close>

theorem display_line_lengths:
  "lcd_printed (fetchAndDisplay env) =
     (if wifi_status env \<noteq> WL_CONNECTED then [''WiFi Lost...'']
      else if http_GET env \<noteq> 200 then
        [''Server Error'', ''Code: '' @ String_int (http_GET env)]
      else if json_error env = Ok \<and> success (json_document env) then
        [fixed_width 16 (build_line1 (status_tag (data (json_document env)))
                                     (currentToken (data (json_document env)))),
         fixed_width 16 (build_line2 (estimatedWait (data (json_document env))))]
      else [''Parse Error''])
   \<and> map length (lcd_printed (fetchAndDisplay env)) =
     (if wifi_status env \<noteq> WL_CONNECTED then [12]
      else if http_GET env \<noteq> 200 then [12, 6 + length (String_int (http_GET env))]
      else if json_error env = Ok \<and> success (json_document env) then [16, 16]
      else [11])"
  by (simp add: lcd_printed_fetch padRight_16 length_fixed_width)

theorem display_line_lengths_witness:
  "lcd_printed (fetchAndDisplay (env_ok data_token7)) =
     [''NOW: #007       '', ''Wait: ~24 min   '']
   \<and> map length (lcd_printed (fetchAndDisplay (env_ok data_token7))) = [16, 16]"
  using display_line_lengths [of "env_ok data_token7"]
  by (simp add: env_ok_def data_token7_def fixed_width_def build_line1_def build_line2_def
      status_tag_def currentToken_def estimatedWait_def float_to_int_def int_fits_def
      numeral_eval replicate_numeral)

subsection \<open>HTTP status codes\<close>

text \<open>
  Claim C2 says that a response is shown as a server error exactly when its status is
  not 2xx, and that every 2xx response goes to the JSON decoder. The sketch compares the
  status with 200: a 204 answer is shown as \<open>Server Error\<close> / \<open>Code: 204\<close> and its body
  never reaches the decoder.
\<close>

theorem status_204_is_server_error:
  "200 \<le> http_GET env_204 \<and> http_GET env_204 < 300
   \<and> lcd_printed (fetchAndDisplay env_204) = [''Server Error'', ''Code: 204'']
   \<and> DeserializeJson (http_getString env_204) \<notin> set (fetchAndDisplay env_204)"
  by (simp add: fetchAndDisplay_def env_204_def numeral_eval)

text \<open>
  Claim C2, amended: with the link up, the LCD shows \<open>Server Error\<close> on line 1 and
  \<open>Code: \<close> followed by the decimal status code on line 2 if and only if the status
  code differs from 200; the body is passed to the JSON decoder if and only if the
  status code is 200.
\<close>

theorem http_error_iff_not_200:
  assumes "wifi_status env = WL_CONNECTED"
  shows "(lcd_printed (fetchAndDisplay env) =
            [''Server Error'', ''Code: '' @ String_int (http_GET env)]) = (http_GET env \<noteq> 200)
       \<and> (DeserializeJson (http_getString env) \<in> set (fetchAndDisplay env)) = (http_GET env = 200)"
proof -
  have neq: "padRight s 16 \<noteq> ''Server Error''" for s
  proof
    assume "padRight s 16 = ''Server Error''"
    then have "length (padRight s 16) = length ''Server Error''" by simp
    then show False by (simp add: padRight_16 length_fixed_width)
  qed
  have "(lcd_printed (fetchAndDisplay env) =
            [''Server Error'', ''Code: '' @ String_int (http_GET env)]) = (http_GET env \<noteq> 200)"
    using assms by (simp add: lcd_printed_fetch neq)
  moreover have "(DeserializeJson (http_getString env) \<in> set (fetchAndDisplay env)) = (http_GET env = 200)"
    using assms by (simp add: fetchAndDisplay_def Let_def)
  ultimately show ?thesis by simp
qed

theorem http_error_iff_not_200_witness:
  "wifi_status env_500 = WL_CONNECTED
   \<and> lcd_printed (fetchAndDisplay env_500) = [''Server Error'', ''Code: 500'']
   \<and> DeserializeJson (http_getString env_500) \<notin> set (fetchAndDisplay env_500)"
  using http_error_iff_not_200 [of env_500]
  by (simp add: env_500_def numeral_eval)

subsection \<open>Serving and idle\<close>



subsection \<open>Token formatting\<close>

text \<open>
  Claim C4: for a token from 1 to 9 the first line is \<open>NOW: #\<close>, two zeros and the
  one-digit numeral; from 10 to 99, one zero and the two-digit numeral; from 100 to
  999, the three-digit numeral; from 1000 on, the numeral as it is, with four digits or
  more. The numeral of a positive token has no leading zero and denotes the token.
\<close>

theorem token_formatting:
  "(1 \<le> t \<and> t \<le> 9 \<longrightarrow>
      build_line1 ''consulting'' t = ''NOW: #00'' @ String_int t \<and> length (String_int t) = 1)
   \<and> (10 \<le> t \<and> t \<le> 99 \<longrightarrow>
      build_line1 ''consulting'' t = ''NOW: #0'' @ String_int t \<and> length (String_int t) = 2)
   \<and> (100 \<le> t \<and> t \<le> 999 \<longrightarrow>
      build_line1 ''consulting'' t = ''NOW: #'' @ String_int t \<and> length (String_int t) = 3)
   \<and> (1000 \<le> t \<longrightarrow>
      build_line1 ''consulting'' t = ''NOW: #'' @ String_int t \<and> 4 \<le> length (String_int t))
   \<and> (1 \<le> t \<longrightarrow> hd (String_int t) \<noteq> CHR ''0'' \<and> decimal_value (String_int t) = nat t)"
proof (intro conjI impI)
  assume "1 \<le> t \<and> t \<le> 9"
  then show "build_line1 ''consulting'' t = ''NOW: #00'' @ String_int t"
    by (simp add: build_line1_def)
next
  assume "1 \<le> t \<and> t \<le> 9"
  then show "length (String_int t) = 1"
    by (intro length_String_int_1) linarith+
next
  assume "10 \<le> t \<and> t \<le> 99"
  then show "build_line1 ''consulting'' t = ''NOW: #0'' @ String_int t"
    by (simp add: build_line1_def)
next
  assume "10 \<le> t \<and> t \<le> 99"
  then show "length (String_int t) = 2"
    by (intro length_String_int_2) linarith+
next
  assume "100 \<le> t \<and> t \<le> 999"
  then show "build_line1 ''consulting'' t = ''NOW: #'' @ String_int t"
    by (simp add: build_line1_def)
next
  assume "100 \<le> t \<and> t \<le> 999"
  then show "length (String_int t) = 3"
    by (intro length_String_int_3) linarith+
next
  assume "1000 \<le> t"
  then show "build_line1 ''consulting'' t = ''NOW: #'' @ String_int t"
    by (simp add: build_line1_def)
next
  assume "1000 \<le> t"
  then show "4 \<le> length (String_int t)"
    by (rule length_String_int_4)
next
  assume "1 \<le> t"
  then show "hd (String_int t) \<noteq> CHR ''0''"
    by (simp add: String_int_positive)
next
  assume "1 \<le> t"
  then show "decimal_value (String_int t) = nat t"
    by (simp add: String_int_positive)
qed

theorem token_formatting_witness:
  "build_line1 ''consulting'' 7 = ''NOW: #007''
   \<and> build_line1 ''consulting'' 42 = ''NOW: #042''
   \<and> build_line1 ''consulting'' 137 = ''NOW: #137''
   \<and> build_line1 ''consulting'' 1234 = ''NOW: #1234''"
  using token_formatting [of 7] token_formatting [of 42] token_formatting [of 137]
    token_formatting [of 1234]
  by (simp add: numeral_eval)

subsection \<open>Loss of the link\<close>

text \<open>
  Claim C5: when the link is reported down at poll time, the cycle clears the LCD, prints
  \<open>WiFi Lost...\<close> on line 1 and returns; no call of the HTTP client is made.
\<close>

theorem wifi_lost_no_network_io:
  assumes "wifi_status env \<noteq> WL_CONNECTED"
  shows "fetchAndDisplay env = [LcdClear, LcdSetCursor 0 0, LcdPrint ''WiFi Lost...'']
       \<and> filter is_http (fetchAndDisplay env) = []"
  using assms by (simp add: fetchAndDisplay_def)

theorem wifi_lost_no_network_io_witness:
  "wifi_status env_wifi_lost \<noteq> WL_CONNECTED
   \<and> fetchAndDisplay env_wifi_lost = [LcdClear, LcdSetCursor 0 0, LcdPrint ''WiFi Lost...'']
   \<and> filter is_http (fetchAndDisplay env_wifi_lost) = []"
  using wifi_lost_no_network_io [of env_wifi_lost]
  by (simp add: env_wifi_lost_def)

subsection \<open>The poll scheduler\<close>

text \<open>
  Claim C6: the elapsed-time test depends on the two timestamps only, and a poll is
  triggered if and only if the unsigned difference \<open>(now - lastPollTime) mod 2^32\<close> is at
  least the interval of 5000 ms. So when \<open>d\<close> milliseconds have passed since the last
  poll, a poll is triggered if and only if \<open>d\<close> is at least 5000, also when the counter
  has wrapped past zero in between.
\<close>

theorem poll_due_unsigned_difference:
  "poll_due now lastPollTime = (5000 \<le> (uint now - uint lastPollTime) mod 2 ^ 32)
   \<and> loop lastPollTime now env =
       (if 5000 \<le> (uint now - uint lastPollTime) mod 2 ^ 32
        then (now, fetchAndDisplay env) else (lastPollTime, []))
   \<and> (d < 2 ^ 32 \<longrightarrow> poll_due (lastPollTime + word_of_nat d) lastPollTime = (5000 \<le> d))"
proof -
  have "poll_due now lastPollTime = (5000 \<le> (uint now - uint lastPollTime) mod 2 ^ 32)"
    by (simp add: poll_due_def POLL_INTERVAL_def word_le_def uint_word_ariths)
  then show ?thesis by (simp add: loop_def poll_due_elapsed)
qed

theorem poll_due_unsigned_difference_witness:
  "poll_due 100 4294962396 \<and> (100 :: 32 word) < 4294962396
   \<and> (4294962396 :: 32 word) + word_of_nat 5000 = 100
   \<and> fst (loop 4294962396 100 env_wifi_lost) = 100
   \<and> \<not> poll_due 100 4294962397"
  using poll_due_unsigned_difference [of 100 4294962396 env_wifi_lost 5000]
    poll_due_unsigned_difference [of 100 4294962397 env_wifi_lost 4999]
  by (simp add: word_less_def)

subsection \<open>Decode errors\<close>

text \<open>
  Claim C7 says that every 2xx response whose body fails to deserialize, or whose
  \<open>success\<close> field is not true, is shown as \<open>Parse Error\<close>. A 201 answer whose body is
  not JSON is shown as \<open>Server Error\<close> / \<open>Code: 201\<close> instead.
\<close>

theorem status_201_is_not_parse_error:
  "200 \<le> http_GET env_201 \<and> http_GET env_201 < 300 \<and> json_error env_201 \<noteq> Ok
   \<and> lcd_printed (fetchAndDisplay env_201) = [''Server Error'', ''Code: 201'']"
  by (simp add: lcd_printed_fetch env_201_def numeral_eval)

text \<open>
  Claim C7, amended: for every response with status code 200, the LCD shows
  \<open>Parse Error\<close> (and nothing else) if and only if deserialization fails or the
  \<open>success\<close> field is not true; the detail message goes to the serial port only.
\<close>

theorem parse_error_iff:
  assumes "wifi_status env = WL_CONNECTED" and "http_GET env = 200"
  shows "(lcd_printed (fetchAndDisplay env) = [''Parse Error'']) =
           (json_error env \<noteq> Ok \<or> \<not> success (json_document env))
       \<and> (json_error env \<noteq> Ok \<or> \<not> success (json_document env) \<longrightarrow>
            filter is_lcd (fetchAndDisplay env) =
              [LcdClear, LcdSetCursor 0 0, LcdPrint ''Parse Error'']
          \<and> SerialPrintln (''JSON Error: '' @ c_str (json_error env)) \<in> set (fetchAndDisplay env))"
  using assms by (auto simp: lcd_printed_fetch fetchAndDisplay_def Let_def)

theorem parse_error_iff_witness:
  "wifi_status env_refused = WL_CONNECTED \<and> http_GET env_refused = 200
   \<and> \<not> success (json_document env_refused)
   \<and> lcd_printed (fetchAndDisplay env_refused) = [''Parse Error'']
   \<and> filter is_lcd (fetchAndDisplay env_refused) =
        [LcdClear, LcdSetCursor 0 0, LcdPrint ''Parse Error'']
   \<and> SerialPrintln ''JSON Error: Ok'' \<in> set (fetchAndDisplay env_refused)"
  using parse_error_iff [of env_refused]
  by (simp add: env_refused_def)

subsection \<open>The wait line\<close>



subsection \<open>Failure to connect at startup\<close>

text \<open>
  Claim C9: when none of the status checks of the startup sequence reports the link
  (the 31 checks of the loop around its 30 waits of 500 ms, and the check after it), the
  sketch prints \<open>WiFi Failed!\<close> / \<open>Check config...\<close> and stays in the halt loop for
  every amount of fuel: the setup function never returns, the runtime never reaches
  \<open>loop()\<close>, and no call of the HTTP client is made.
\<close>

theorem failed_connect_halts:
  assumes "\<forall>k<32. wifi_poll benv k \<noteq> WL_CONNECTED"
  shows "setup_sketch benv fuel =
           ([SerialBegin 115200, LcdInit, LcdBacklight, LcdClear,
             LcdSetCursor 0 0, LcdPrint ''OPD Queue System'',
             LcdSetCursor 0 1, LcdPrint ''Connecting WiFi.'',
             WiFiBegin WIFI_SSID WIFI_PASSWORD, SerialPrint ''Connecting to WiFi'']
            @ concat (replicate 30 [Delay 500, SerialPrint ''.''])
            @ [SerialPrintln (CHR 0x0A # ''WiFi FAILED''),
               LcdClear, LcdSetCursor 0 0, LcdPrint ''WiFi Failed!'',
               LcdSetCursor 0 1, LcdPrint ''Check config...'']
            @ replicate fuel (Delay 1000), False)
       \<and> arduino_main benv ticks fuel = fst (setup_sketch benv fuel)
       \<and> filter is_http (arduino_main benv ticks fuel) = []"
proof -
  from assms have last: "wifi_poll benv 31 \<noteq> WL_CONNECTED" by simp
  from assms have loop_calls: "\<forall>k<31. wifi_poll benv k \<noteq> WL_CONNECTED" by simp
  have s: "setup_sketch benv fuel =
           ([SerialBegin 115200, LcdInit, LcdBacklight, LcdClear,
             LcdSetCursor 0 0, LcdPrint ''OPD Queue System'',
             LcdSetCursor 0 1, LcdPrint ''Connecting WiFi.'',
             WiFiBegin WIFI_SSID WIFI_PASSWORD, SerialPrint ''Connecting to WiFi'']
            @ concat (replicate 30 [Delay 500, SerialPrint ''.''])
            @ [SerialPrintln (CHR 0x0A # ''WiFi FAILED''),
               LcdClear, LcdSetCursor 0 0, LcdPrint ''WiFi Failed!'',
               LcdSetCursor 0 1, LcdPrint ''Check config...'']
            @ replicate fuel (Delay 1000), False)"
    using last by (simp add: setup_sketch_def wait_connect_30 [OF loop_calls] halt_never_left)
  have m: "arduino_main benv ticks fuel = fst (setup_sketch benv fuel)"
    by (simp add: arduino_main_def s)
  have "filter is_http (arduino_main benv ticks fuel) = []"
    unfolding m s by (simp add: filter_http_dots filter_http_halt)
  with s m show ?thesis by simp
qed

theorem failed_connect_halts_witness:
  "wifi_poll boot_no_link 0 \<noteq> WL_CONNECTED \<and> wifi_poll boot_no_link 31 \<noteq> WL_CONNECTED
   \<and> snd (setup_sketch boot_no_link 3) = False
   \<and> lcd_printed (arduino_main boot_no_link sample_ticks 3) =
        [''OPD Queue System'', ''Connecting WiFi.'', ''WiFi Failed!'', ''Check config...'']
   \<and> filter is_http (arduino_main boot_no_link sample_ticks 3) = []"
proof -
  have h: "\<forall>k<32. wifi_poll boot_no_link k \<noteq> WL_CONNECTED"
    by (simp add: boot_no_link_def)
  have p: "lcd_printed (concat (replicate n [Delay 500, SerialPrint ''.'']) @ es) = lcd_printed es" for n es
    by (induction n) simp_all
  show ?thesis
    using h failed_connect_halts [OF h, of 3 sample_ticks]
    by (simp add: p replicate_numeral)
qed

subsection \<open>The waiting count\<close>

text \<open>
  Claim C10: two successful responses whose decoded data differ only in
  \<open>waiting_count\<close> produce the same calls on the LCD.
\<close>

theorem waiting_count_not_displayed:
  assumes "wifi_status e1 = WL_CONNECTED" and "http_GET e1 = 200"
    and "json_error e1 = Ok" and "success (json_document e1)"
    and "wifi_status e2 = WL_CONNECTED" and "http_GET e2 = 200"
    and "json_error e2 = Ok" and "success (json_document e2)"
    and "data (json_document e2) = (data (json_document e1))\<lparr>waiting_count := c\<rparr>"
  shows "filter is_lcd (fetchAndDisplay e1) = filter is_lcd (fetchAndDisplay e2)"
  using assms
  by (simp add: fetchAndDisplay_def Let_def status_tag_def currentToken_def estimatedWait_def)

theorem waiting_count_not_displayed_witness:
  "filter is_lcd (fetchAndDisplay (env_ok data_token7)) =
     filter is_lcd (fetchAndDisplay (env_ok (data_token7\<lparr>waiting_count := Some 12\<rparr>)))
   \<and> waiting_count data_token7 \<noteq> Some 12"
  using waiting_count_not_displayed
    [of "env_ok data_token7" "env_ok (data_token7\<lparr>waiting_count := Some 12\<rparr>)" "Some 12"]
  by (simp add: env_ok_def data_token7_def)

end
